theory Spec2Isabelle
  imports Complex_Main
begin

section \<open>Geometry primitives (voronoi.hh)\<close>

text \<open>
  The C++ coordinates are \<open>double\<close>. They are modelled as \<^typ>\<open>real\<close>: arithmetic is exact,
  and the two places where a \<open>double\<close> computation leaves the finite numbers (a division
  whose divisor is zero, a square root of a negative number) are results of their own,
  \<open>DivisionByZero\<close> and \<open>NotANumber\<close>, instead of the infinity or NaN the C++ goes on with.
  A null \<open>shared_ptr\<close> that is dereferenced is \<open>NullPointerDereference\<close>.
\<close>

datatype error =
    NullPointerDereference
  | DanglingPointer
  | EmptyQueue
  | DivisionByZero
  | NotANumber

text \<open>\<open>struct Point { double x; double y; }\<close>; \<open>operator==\<close> is componentwise, as HOL equality
  on the record is. The fields are \<open>px\<close> and \<open>py\<close>.\<close>

record Point =
  px :: real
  py :: real

definition Point_new :: "real \<Rightarrow> real \<Rightarrow> Point" where
  "Point_new a b = \<lparr>px = a, py = b\<rparr>"

text \<open>\<open>struct Segment { Point start; Point end; bool done; }\<close> with its constructor
  \<open>Segment(p) : start(p), end(), done(false)\<close> (the default point is the origin).\<close>

record Segment =
  seg_start :: Point
  seg_end :: Point
  seg_done :: bool

definition Segment_new :: "Point \<Rightarrow> Segment" where
  "Segment_new p = \<lparr>seg_start = p, seg_end = Point_new 0 0, seg_done = False\<rparr>"

text \<open>\<open>void finish(const Point& p) { if (!done) { end = p; done = true; } }\<close>\<close>

definition finish :: "Point \<Rightarrow> Segment \<Rightarrow> Segment" where
  "finish p s = (if \<not> seg_done s then s\<lparr>seg_end := p, seg_done := True\<rparr> else s)"

text \<open>The older \<open>Segment\<close> of point.h keeps \<open>end\<close> as a pointer to a point, null until the
  segment is finished: \<open>if (done) return; end = p; done = true;\<close>.\<close>

record Segment_ptr =
  sp_start :: Point
  sp_end :: "Point option"
  sp_done :: bool

definition Segment_ptr_new :: "Point \<Rightarrow> Segment_ptr" where
  "Segment_ptr_new p = \<lparr>sp_start = p, sp_end = None, sp_done = False\<rparr>"

definition finish_ptr :: "Point \<Rightarrow> Segment_ptr \<Rightarrow> Segment_ptr" where
  "finish_ptr p s = (if sp_done s then s else s\<lparr>sp_end := Some p, sp_done := True\<rparr>)"

subsection \<open>Checked arithmetic\<close>

definition fdiv :: "real \<Rightarrow> real \<Rightarrow> error + real" where
  "fdiv a b = (if b = 0 then Inl DivisionByZero else Inr (a / b))"

definition fsqrt :: "real \<Rightarrow> error + real" where
  "fsqrt v = (if v < 0 then Inl NotANumber else Inr (sqrt v))"

text \<open>\<open>std::hypot\<close> of the C++ library.\<close>

definition hypot :: "real \<Rightarrow> real \<Rightarrow> real" where
  "hypot u v = sqrt (u * u + v * v)"

text \<open>Sequencing of a computation that may fail.\<close>

definition ebind :: "error + 'a \<Rightarrow> ('a \<Rightarrow> error + 'b) \<Rightarrow> error + 'b" where
  "ebind m f = (case m of Inl e \<Rightarrow> Inl e | Inr v \<Rightarrow> f v)"

subsection \<open>The circle through three sites\<close>

text \<open>The turn test of \<open>circle\<close>: \<open>(b.x - a.x) * (c.y - a.y) - (c.x - a.x) * (b.y - a.y)\<close>;
  the triple is rejected when this is positive.\<close>

definition turn :: "Point \<Rightarrow> Point \<Rightarrow> Point \<Rightarrow> real" where
  "turn a b c = (px b - px a) * (py c - py a) - (px c - px a) * (py b - py a)"

text \<open>The denominator \<open>G\<close> of the circumcentre.\<close>

definition circle_G :: "Point \<Rightarrow> Point \<Rightarrow> Point \<Rightarrow> real" where
  "circle_G a b c =
     2 * ((px b - px a) * (py c - py b) - (py b - py a) * (px c - px b))"

text \<open>\<open>bool circle(a, b, c, double* x, Point* o)\<close>: \<open>None\<close> is the result \<open>false\<close>,
  \<open>Some (x, o)\<close> the result \<open>true\<close> with the two values written through the pointers.\<close>

definition circle :: "Point \<Rightarrow> Point \<Rightarrow> Point \<Rightarrow> (real \<times> Point) option" where
  "circle a b c =
     (if turn a b c > 0 then None
      else
        let A = px b - px a;
            B = py b - py a;
            C = px c - px a;
            D = py c - py a;
            E = A * (px a + px b) + B * (py a + py b);
            F = C * (px a + px c) + D * (py a + py c);
            G = circle_G a b c
        in if G = 0 then None
           else
             let ctr = \<lparr>px = (D * E - B * F) / G, py = (A * F - C * E) / G\<rparr>
             in Some (px ctr + hypot (px a - px ctr) (py a - py ctr), ctr))"

subsection \<open>The breakpoint of two parabolas\<close>

text \<open>The last statement of \<open>intersection\<close>, which plugs \<open>res.y\<close> back into the parabola of
  focus \<open>p\<close>: \<open>res.x = (p.x*p.x + (p.y-res.y)*(p.y-res.y) - l*l)/(2*p.x-2*l)\<close>.\<close>

definition plug_back :: "Point \<Rightarrow> real \<Rightarrow> real \<Rightarrow> error + Point" where
  "plug_back p yy l =
     ebind (fdiv (px p * px p + (py p - yy) * (py p - yy) - l * l) (2 * px p - 2 * l))
       (\<lambda>xx. Inr \<lparr>px = xx, py = yy\<rparr>)"

text \<open>The general branch of \<open>intersection\<close>: the quadratic formula.\<close>

definition quadratic_y :: "Point \<Rightarrow> Point \<Rightarrow> real \<Rightarrow> error + real" where
  "quadratic_y p0 p1 l =
     (let z0 = 2 * (px p0 - l);
          z1 = 2 * (px p1 - l)
      in ebind (fdiv 1 z0) (\<lambda>i0.
         ebind (fdiv 1 z1) (\<lambda>i1.
         ebind (fdiv (py p0) z0) (\<lambda>q0.
         ebind (fdiv (py p1) z1) (\<lambda>q1.
         ebind (fdiv (py p0 * py p0 + px p0 * px p0 - l * l) z0) (\<lambda>c0.
         ebind (fdiv (py p1 * py p1 + px p1 * px p1 - l * l) z1) (\<lambda>c1.
           let a = i0 - i1;
               b = - 2 * (q0 - q1);
               c = c0 - c1
           in ebind (fsqrt (b * b - 4 * a * c)) (\<lambda>r.
              fdiv (- b - r) (2 * a)))))))))"

definition intersection :: "Point \<Rightarrow> Point \<Rightarrow> real \<Rightarrow> error + Point" where
  "intersection p0 p1 l =
     (if px p0 = px p1 then plug_back p0 ((py p0 + py p1) / 2) l
      else if px p1 = l then plug_back p0 (py p1) l
      else if px p0 = l then plug_back p1 (py p0) l
      else ebind (quadratic_y p0 p1 l) (\<lambda>yy. plug_back p0 yy l))"

section \<open>The sweep state (voronoi.hh)\<close>

text \<open>
  Arcs, events and segments live on the C++ heap and are reached through \<open>shared_ptr\<close>s.
  The model keeps one store per class, a list indexed by allocation order, and a pointer
  is \<open>None\<close> (null) or the index of the object. \<open>make_shared\<close> appends to the store.
\<close>

type_synonym ArcPtr = "nat option"
type_synonym EventPtr = "nat option"
type_synonym SegmentPtr = "nat option"

record Arc =
  arc_p :: Point
  arc_prev :: ArcPtr
  arc_next :: ArcPtr
  arc_event :: EventPtr
  arc_left_segment :: SegmentPtr
  arc_right_segment :: SegmentPtr

text \<open>\<open>Arc(pp, a = nullptr, b = nullptr)\<close>\<close>

definition Arc_new :: "Point \<Rightarrow> ArcPtr \<Rightarrow> ArcPtr \<Rightarrow> Arc" where
  "Arc_new pp a b =
     \<lparr>arc_p = pp, arc_prev = a, arc_next = b, arc_event = None,
      arc_left_segment = None, arc_right_segment = None\<rparr>"

record Event =
  ev_x :: real
  ev_p :: Point
  ev_arc :: ArcPtr
  ev_valid :: bool

text \<open>\<open>Event(xx, pp, aa) : x(xx), p(pp), arc(aa), valid(true)\<close>\<close>

definition Event_new :: "real \<Rightarrow> Point \<Rightarrow> ArcPtr \<Rightarrow> Event" where
  "Event_new xx pp aa = \<lparr>ev_x = xx, ev_p = pp, ev_arc = aa, ev_valid = True\<rparr>"

text \<open>
  The fields of \<open>class FortuneAlgorithm\<close>, followed by the three stores. \<open>points\<close> and
  \<open>events\<close> hold the contents of the two priority queues (the events as pointers);
  \<open>output_segments\<close> is the vector of segment pointers.
\<close>

record FortuneAlgorithm =
  root_arc :: ArcPtr
  points :: "Point list"
  events :: "nat list"
  output_segments :: "SegmentPtr list"
  x_min :: real
  x_max :: real
  y_min :: real
  y_max :: real
  arc_heap :: "Arc list"
  event_heap :: "Event list"
  segment_heap :: "Segment list"

definition FortuneAlgorithm_init :: FortuneAlgorithm where
  "FortuneAlgorithm_init =
     \<lparr>root_arc = None, points = [], events = [], output_segments = [],
      x_min = 0, x_max = 0, y_min = 0, y_max = 0,
      arc_heap = [], event_heap = [], segment_heap = []\<rparr>"

subsection \<open>Dereferencing\<close>

definition get_arc :: "FortuneAlgorithm \<Rightarrow> ArcPtr \<Rightarrow> error + Arc" where
  "get_arc s i =
     (case i of
        None \<Rightarrow> Inl NullPointerDereference
      | Some a \<Rightarrow> if a < length (arc_heap s) then Inr (arc_heap s ! a) else Inl DanglingPointer)"

definition get_event :: "FortuneAlgorithm \<Rightarrow> EventPtr \<Rightarrow> error + Event" where
  "get_event s i =
     (case i of
        None \<Rightarrow> Inl NullPointerDereference
      | Some e \<Rightarrow> if e < length (event_heap s) then Inr (event_heap s ! e) else Inl DanglingPointer)"

text \<open>A write through an arc pointer: \<open>i->field = ...\<close>.\<close>

definition set_arc :: "ArcPtr \<Rightarrow> (Arc \<Rightarrow> Arc) \<Rightarrow> FortuneAlgorithm \<Rightarrow> error + FortuneAlgorithm" where
  "set_arc i f s =
     (case i of
        None \<Rightarrow> Inl NullPointerDereference
      | Some a \<Rightarrow>
          if a < length (arc_heap s)
          then Inr (s\<lparr>arc_heap := (arc_heap s)[a := f (arc_heap s ! a)]\<rparr>)
          else Inl DanglingPointer)"

text \<open>\<open>if (ptr) ptr->finish(p);\<close> on a segment pointer.\<close>

definition finish_segment :: "SegmentPtr \<Rightarrow> Point \<Rightarrow> FortuneAlgorithm \<Rightarrow> error + FortuneAlgorithm" where
  "finish_segment sp p s =
     (case sp of
        None \<Rightarrow> Inr s
      | Some k \<Rightarrow>
          if k < length (segment_heap s)
          then Inr (s\<lparr>segment_heap := (segment_heap s)[k := finish p (segment_heap s ! k)]\<rparr>)
          else Inl DanglingPointer)"

text \<open>\<open>std::make_shared<Arc>(...)\<close> and \<open>std::make_shared<Segment>(p)\<close>: the new object gets the
  next index of its store.\<close>

definition alloc_arc :: "Arc \<Rightarrow> FortuneAlgorithm \<Rightarrow> FortuneAlgorithm" where
  "alloc_arc v s = s\<lparr>arc_heap := arc_heap s @ [v]\<rparr>"

definition alloc_segment :: "Point \<Rightarrow> FortuneAlgorithm \<Rightarrow> FortuneAlgorithm" where
  "alloc_segment p s = s\<lparr>segment_heap := segment_heap s @ [Segment_new p]\<rparr>"

text \<open>\<open>get_segments()\<close> returns the vector of segment pointers.\<close>

definition get_segments :: "FortuneAlgorithm \<Rightarrow> SegmentPtr list" where
  "get_segments s = output_segments s"

subsection \<open>The two priority queues\<close>

text \<open>
  Modelled from the spec: \<open>points\<close> is a \<open>std::priority_queue<Point, std::vector<Point>,
  std::greater<>>\<close>, which needs \<open>operator>\<close> on \<open>Point\<close>; voronoi.hh declares only
  \<open>operator==\<close> and \<open>operator!=\<close>. The order is taken from the specification: points are
  ordered lexicographically by (x, y).
\<close>

definition Point_greater :: "Point \<Rightarrow> Point \<Rightarrow> bool" where
  "Point_greater a b = (px a > px b \<or> (px a = px b \<and> py a > py b))"

text \<open>\<open>points.top()\<close>: with \<open>std::greater<>\<close> the top of the queue is a least element.\<close>

fun points_top :: "Point list \<Rightarrow> Point option" where
  "points_top [] = None"
| "points_top (p # ps) =
     (case points_top ps of
        None \<Rightarrow> Some p
      | Some m \<Rightarrow> if Point_greater p m then Some m else Some p)"

text \<open>
  \<open>events\<close> is a \<open>std::priority_queue<EventPtr, std::vector<EventPtr>, std::greater<>>\<close>:
  the comparison is \<open>operator>\<close> of \<open>shared_ptr\<close>, which compares the addresses of the
  events. (The struct \<open>EventComparator\<close>, which compares the trigger x, is declared in the
  class and used nowhere.) The address of the event with store index \<open>e\<close> is \<open>addr e\<close>; the
  allocator decides it, so \<open>addr\<close> is a parameter. \<open>events.top()\<close> is the pointer of least
  address.
\<close>

fun events_top :: "(nat \<Rightarrow> nat) \<Rightarrow> nat list \<Rightarrow> nat option" where
  "events_top addr [] = None"
| "events_top addr (e # q) =
     (case events_top addr q of
        None \<Rightarrow> Some e
      | Some m \<Rightarrow> if addr e > addr m then Some m else Some e)"

text \<open>What \<open>EventComparator\<close> says: \<open>a->x > b->x\<close>.\<close>

definition EventComparator :: "Event \<Rightarrow> Event \<Rightarrow> bool" where
  "EventComparator a b = (ev_x a > ev_x b)"

section \<open>The beachline (voronoi.cpp)\<close>

subsection \<open>intersect\<close>

text \<open>The breakpoint ordinate of \<open>intersect\<close>: \<open>a\<close> and \<open>b\<close> start at \<open>0.0\<close> and are computed
  only when the neighbour exists.\<close>

definition breakpoint_y :: "FortuneAlgorithm \<Rightarrow> ArcPtr \<Rightarrow> (Arc \<Rightarrow> error + Point) \<Rightarrow> error + real" where
  "breakpoint_y s j f =
     (case j of
        None \<Rightarrow> Inr 0
      | Some n \<Rightarrow> ebind (get_arc s (Some n)) (\<lambda>nb. ebind (f nb) (\<lambda>r. Inr (py r))))"

text \<open>\<open>bool intersect(p, i, Point* res)\<close>: \<open>Inr None\<close> is \<open>false\<close>, \<open>Inr (Some res)\<close> is \<open>true\<close>
  with the point written to \<open>*res\<close>.\<close>

definition intersect :: "Point \<Rightarrow> ArcPtr \<Rightarrow> FortuneAlgorithm \<Rightarrow> error + Point option" where
  "intersect p i s =
     ebind (get_arc s i) (\<lambda>arc.
       if px (arc_p arc) = px p then Inr None
       else
         ebind (breakpoint_y s (arc_prev arc) (\<lambda>pa. intersection (arc_p pa) (arc_p arc) (px p))) (\<lambda>a.
         ebind (breakpoint_y s (arc_next arc) (\<lambda>na. intersection (arc_p arc) (arc_p na) (px p))) (\<lambda>b.
           if (arc_prev arc = None \<or> a \<le> py p) \<and> (arc_next arc = None \<or> py p \<le> b)
           then
             ebind (fdiv (px (arc_p arc) * px (arc_p arc)
                          + (py (arc_p arc) - py p) * (py (arc_p arc) - py p)
                          - px p * px p)
                         (2 * px (arc_p arc) - 2 * px p))
               (\<lambda>xx. Inr (Some \<lparr>px = xx, py = py p\<rparr>))
           else Inr None)))"

subsection \<open>check\_circle\_event\<close>

text \<open>\<open>if (i->event && i->event->x != x0) i->event->valid = false;\<close>\<close>

definition invalidate_event :: "EventPtr \<Rightarrow> real \<Rightarrow> FortuneAlgorithm \<Rightarrow> error + FortuneAlgorithm" where
  "invalidate_event ep x0 s =
     (case ep of
        None \<Rightarrow> Inr s
      | Some e \<Rightarrow>
          ebind (get_event s (Some e)) (\<lambda>ev.
            if ev_x ev \<noteq> x0
            then Inr (s\<lparr>event_heap := (event_heap s)[e := ev\<lparr>ev_valid := False\<rparr>]\<rparr>)
            else Inr s))"

text \<open>\<open>i->event = std::make_shared<Event>(x, o, i); events.push(i->event);\<close>\<close>

definition schedule_event :: "nat \<Rightarrow> real \<Rightarrow> Point \<Rightarrow> FortuneAlgorithm \<Rightarrow> FortuneAlgorithm" where
  "schedule_event a xx ctr s =
     (let e = length (event_heap s)
      in s\<lparr>event_heap := event_heap s @ [Event_new xx ctr (Some a)],
           arc_heap := (arc_heap s)[a := (arc_heap s ! a)\<lparr>arc_event := Some e\<rparr>],
           events := events s @ [e]\<rparr>)"

definition check_circle_event ::
  "ArcPtr \<Rightarrow> real \<Rightarrow> FortuneAlgorithm \<Rightarrow> error + (bool \<times> FortuneAlgorithm)" where
  "check_circle_event i x0 s =
     ebind (get_arc s i) (\<lambda>arc.
     ebind (invalidate_event (arc_event arc) x0 s) (\<lambda>s1.
     ebind (set_arc i (\<lambda>r. r\<lparr>arc_event := None\<rparr>) s1) (\<lambda>s2.
       if arc_prev arc = None \<or> arc_next arc = None then Inr (False, s2)
       else
         ebind (get_arc s2 (arc_prev arc)) (\<lambda>pa.
         ebind (get_arc s2 (arc_next arc)) (\<lambda>na.
           case circle (arc_p pa) (arc_p arc) (arc_p na) of
             None \<Rightarrow> Inr (False, s2)
           | Some (xx, ctr) \<Rightarrow>
               if xx > x0
               then (case i of
                       None \<Rightarrow> Inl NullPointerDereference
                     | Some a \<Rightarrow> Inr (True, schedule_event a xx ctr s2))
               else Inr (False, s2))))))"

text \<open>The call as a statement, \<open>check_circle_event(i, x0);\<close>: the result is not used.\<close>

definition check_circle_event_call ::
  "ArcPtr \<Rightarrow> real \<Rightarrow> FortuneAlgorithm \<Rightarrow> error + FortuneAlgorithm" where
  "check_circle_event_call i x0 s = ebind (check_circle_event i x0 s) (\<lambda>r. Inr (snd r))"

subsection \<open>process\_event\<close>

text \<open>The body of \<open>if (e->valid) { ... }\<close> in \<open>process_event\<close>, for the popped event, in two
  parts. First \<open>// Create a new segment\<close>, \<open>// Remove the associated arc\<close> and
  \<open>// Finish the edges\<close>.\<close>

definition remove_arc :: "Event \<Rightarrow> FortuneAlgorithm \<Rightarrow> error + FortuneAlgorithm" where
  "remove_arc ev s =
     (let k = length (segment_heap s);
          s1 = (alloc_segment (ev_p ev) s)\<lparr>output_segments := output_segments s @ [Some k]\<rparr>;
          a = ev_arc ev
      in
      ebind (get_arc s1 a) (\<lambda>A1.
      ebind (if arc_prev A1 = None then Inr s1
             else set_arc (arc_prev A1)
                    (\<lambda>r. r\<lparr>arc_next := arc_next A1, arc_right_segment := Some k\<rparr>) s1) (\<lambda>s2.
      ebind (get_arc s2 a) (\<lambda>A2.
      ebind (if arc_next A2 = None then Inr s2
             else set_arc (arc_next A2)
                    (\<lambda>r. r\<lparr>arc_prev := arc_prev A2, arc_left_segment := Some k\<rparr>) s2) (\<lambda>s3.
      ebind (get_arc s3 a) (\<lambda>A3.
      ebind (finish_segment (arc_left_segment A3) (ev_p ev) s3) (\<lambda>s4.
      ebind (get_arc s4 a) (\<lambda>A4.
        finish_segment (arc_right_segment A4) (ev_p ev) s4))))))))"

text \<open>Then \<open>// Recheck circle events\<close>:
  \<open>if (a->prev) check_circle_event(a->prev, e->x); if (a->next) check_circle_event(a->next, e->x);\<close>\<close>

definition recheck_neighbours :: "Event \<Rightarrow> FortuneAlgorithm \<Rightarrow> error + FortuneAlgorithm" where
  "recheck_neighbours ev s =
     ebind (get_arc s (ev_arc ev)) (\<lambda>A5.
     ebind (if arc_prev A5 = None then Inr s
            else check_circle_event_call (arc_prev A5) (ev_x ev) s) (\<lambda>s6.
     ebind (get_arc s6 (ev_arc ev)) (\<lambda>A6.
       if arc_next A6 = None then Inr s6
       else check_circle_event_call (arc_next A6) (ev_x ev) s6)))"

definition fire_event :: "Event \<Rightarrow> FortuneAlgorithm \<Rightarrow> error + FortuneAlgorithm" where
  "fire_event ev s = ebind (remove_arc ev s) (recheck_neighbours ev)"

text \<open>\<open>EventPtr e = events.top(); events.pop(); if (e->valid) { ... }\<close>\<close>

definition process_event :: "(nat \<Rightarrow> nat) \<Rightarrow> FortuneAlgorithm \<Rightarrow> error + FortuneAlgorithm" where
  "process_event addr s =
     (case events_top addr (events s) of
        None \<Rightarrow> Inl EmptyQueue
      | Some e \<Rightarrow>
          let s0 = s\<lparr>events := remove1 e (events s)\<rparr>
          in ebind (get_event s0 (Some e)) (\<lambda>ev.
               if ev_valid ev then fire_event ev s0 else Inr s0))"

subsection \<open>front\_insert\<close>

definition next_of :: "FortuneAlgorithm \<Rightarrow> ArcPtr \<Rightarrow> error + ArcPtr" where
  "next_of s i = ebind (get_arc s i) (\<lambda>A. Inr (arc_next A))"

definition prev_of :: "FortuneAlgorithm \<Rightarrow> ArcPtr \<Rightarrow> error + ArcPtr" where
  "prev_of s i = ebind (get_arc s i) (\<lambda>A. Inr (arc_prev A))"

text \<open>\<open>i->next = i->next->prev;\<close>\<close>

definition next_becomes_next_prev :: "ArcPtr \<Rightarrow> FortuneAlgorithm \<Rightarrow> error + FortuneAlgorithm" where
  "next_becomes_next_prev i s =
     ebind (next_of s i) (\<lambda>n.
     ebind (prev_of s n) (\<lambda>q.
       set_arc i (\<lambda>r. r\<lparr>arc_next := q\<rparr>) s))"

text \<open>The three calls that end the loop body of \<open>front_insert\<close>:
  \<open>check_circle_event(i, p.x); check_circle_event(i->prev, p.x); check_circle_event(i->next, p.x);\<close>\<close>

definition check_three :: "ArcPtr \<Rightarrow> real \<Rightarrow> FortuneAlgorithm \<Rightarrow> error + FortuneAlgorithm" where
  "check_three i x0 s =
     ebind (check_circle_event_call i x0 s) (\<lambda>t1.
     ebind (prev_of t1 i) (\<lambda>pv.
     ebind (check_circle_event_call pv x0 t1) (\<lambda>t2.
     ebind (next_of t2 i) (\<lambda>nx.
       check_circle_event_call nx x0 t2))))"

text \<open>The body of \<open>if (intersect(p, i, &z)) { ... return; }\<close> in the loop of \<open>front_insert\<close>,
  for the arc \<open>i\<close> of index \<open>a\<close>, in three parts. First the statements that put the copy of
  \<open>i\<close> and the arc of \<open>p\<close> into the chain, down to \<open>// Add p between i and i->next\<close>.\<close>

definition insert_arcs :: "Point \<Rightarrow> nat \<Rightarrow> FortuneAlgorithm \<Rightarrow> error + FortuneAlgorithm" where
  "insert_arcs p a s =
     (let i = Some a in
      ebind (get_arc s i) (\<lambda>A.
      ebind (case arc_next A of
               None \<Rightarrow> Inr False
             | Some nx \<Rightarrow> ebind (intersect p (Some nx) s) (\<lambda>r. Inr (r = None))) (\<lambda>c.
      ebind (if c
             then
               (let n1 = length (arc_heap s);
                    s1 = alloc_arc (Arc_new (arc_p A) i (arc_next A)) s
                in ebind (set_arc (arc_next A) (\<lambda>r. r\<lparr>arc_prev := Some n1\<rparr>) s1)
                     (next_becomes_next_prev i))
             else
               (let n1 = length (arc_heap s);
                    s1 = alloc_arc (Arc_new (arc_p A) i None) s
                in set_arc i (\<lambda>r. r\<lparr>arc_next := Some n1\<rparr>) s1)) (\<lambda>s3.
      ebind (get_arc s3 i) (\<lambda>A3.
      ebind (set_arc (arc_next A3) (\<lambda>r. r\<lparr>arc_right_segment := arc_right_segment A3\<rparr>) s3) (\<lambda>s4.
      ebind (next_of s4 i) (\<lambda>nx4.
        let n2 = length (arc_heap s4);
            s5 = alloc_arc (Arc_new p i nx4) s4
        in
      ebind (set_arc nx4 (\<lambda>r. r\<lparr>arc_prev := Some n2\<rparr>) s5)
        (next_becomes_next_prev i))))))))"

text \<open>Then \<open>// Add new segments\<close>, where \<open>i\<close> is the new arc of \<open>p\<close>.\<close>

definition new_segments :: "Point \<Rightarrow> ArcPtr \<Rightarrow> FortuneAlgorithm \<Rightarrow> error + FortuneAlgorithm" where
  "new_segments z i2 s =
     (let k1 = length (segment_heap s);
          s8 = alloc_segment z s
      in
      ebind (set_arc i2 (\<lambda>r. r\<lparr>arc_left_segment := Some k1\<rparr>) s8) (\<lambda>s9.
      ebind (get_arc s9 i2) (\<lambda>I9.
      ebind (set_arc (arc_prev I9) (\<lambda>r. r\<lparr>arc_right_segment := arc_left_segment I9\<rparr>) s9) (\<lambda>s10.
      ebind (get_arc s10 i2) (\<lambda>I10.
        let s11 = s10\<lparr>output_segments := output_segments s10 @ [arc_left_segment I10]\<rparr>;
            k2 = length (segment_heap s11);
            s12 = alloc_segment z s11
        in
      ebind (set_arc i2 (\<lambda>r. r\<lparr>arc_right_segment := Some k2\<rparr>) s12) (\<lambda>s13.
      ebind (get_arc s13 i2) (\<lambda>I13.
      ebind (set_arc (arc_next I13) (\<lambda>r. r\<lparr>arc_left_segment := arc_right_segment I13\<rparr>) s13) (\<lambda>s14.
      ebind (get_arc s14 i2) (\<lambda>I14.
        Inr (s14\<lparr>output_segments := output_segments s14 @ [arc_right_segment I14]\<rparr>))))))))))"

text \<open>With \<open>i = i->next;\<close> between the two, and \<open>// Check for new circle events\<close> at the
  end.\<close>

definition split_arc :: "Point \<Rightarrow> nat \<Rightarrow> Point \<Rightarrow> FortuneAlgorithm \<Rightarrow> error + FortuneAlgorithm" where
  "split_arc p a z s =
     ebind (insert_arcs p a s) (\<lambda>s7.
     ebind (next_of s7 (Some a)) (\<lambda>i2.
     ebind (new_segments z i2 s7) (\<lambda>s15.
       check_three i2 (px p) s15)))"

text \<open>The special case at the end of \<open>front_insert\<close>, once \<open>i\<close> is the last arc of the chain.\<close>

definition append_arc :: "Point \<Rightarrow> ArcPtr \<Rightarrow> FortuneAlgorithm \<Rightarrow> error + FortuneAlgorithm" where
  "append_arc p i s =
     (let n = length (arc_heap s);
          s1 = alloc_arc (Arc_new p i None) s
      in
      ebind (set_arc i (\<lambda>r. r\<lparr>arc_next := Some n\<rparr>) s1) (\<lambda>s2.
      ebind (next_of s2 i) (\<lambda>nx.
      ebind (get_arc s2 nx) (\<lambda>N.
      ebind (get_arc s2 i) (\<lambda>I.
        let start = \<lparr>px = x_min s2, py = (py (arc_p N) + py (arc_p I)) / 2\<rparr>;
            k = length (segment_heap s2);
            s3 = alloc_segment start s2
        in
      ebind (next_of s3 i) (\<lambda>nx3.
      ebind (set_arc nx3 (\<lambda>r. r\<lparr>arc_left_segment := Some k\<rparr>) s3) (\<lambda>s4.
      ebind (get_arc s4 nx3) (\<lambda>N4.
      ebind (set_arc i (\<lambda>r. r\<lparr>arc_right_segment := arc_left_segment N4\<rparr>) s4) (\<lambda>s5.
      ebind (get_arc s5 i) (\<lambda>I5.
        Inr (s5\<lparr>output_segments := output_segments s5 @ [arc_right_segment I5]\<rparr>)))))))))))"

text \<open>
  The loops take fuel: the result is \<open>None\<close> when the fuel runs out, \<open>Some (Inl e)\<close> when the
  code fails with \<open>e\<close>, \<open>Some (Inr v)\<close> when it returns \<open>v\<close>.
\<close>

definition obind :: "(error + 'a) option \<Rightarrow> ('a \<Rightarrow> (error + 'b) option) \<Rightarrow> (error + 'b) option" where
  "obind m f =
     (case m of
        None \<Rightarrow> None
      | Some (Inl e) \<Rightarrow> Some (Inl e)
      | Some (Inr v) \<Rightarrow> f v)"

text \<open>\<open>for (ArcPtr i = root; i != nullptr; i = i->next) { if (intersect(p, i, &z)) { ...; return; } }\<close>:
  \<open>Inr (Some s')\<close> when the body returned from \<open>front_insert\<close> with state \<open>s'\<close>, \<open>Inr None\<close> when
  the loop ended at the null pointer.\<close>

fun front_insert_loop ::
  "nat \<Rightarrow> Point \<Rightarrow> ArcPtr \<Rightarrow> FortuneAlgorithm \<Rightarrow> (error + FortuneAlgorithm option) option" where
  "front_insert_loop 0 p i s = None"
| "front_insert_loop (Suc n) p None s = Some (Inr None)"
| "front_insert_loop (Suc n) p (Some a) s =
     (case intersect p (Some a) s of
        Inl e \<Rightarrow> Some (Inl e)
      | Inr (Some z) \<Rightarrow> Some (ebind (split_arc p a z s) (\<lambda>t. Inr (Some t)))
      | Inr None \<Rightarrow>
          (case next_of s (Some a) of
             Inl e \<Rightarrow> Some (Inl e)
           | Inr nx \<Rightarrow> front_insert_loop n p nx s))"

text \<open>\<open>for (i = root; i->next != nullptr; i = i->next) {}\<close>\<close>

fun last_arc :: "nat \<Rightarrow> ArcPtr \<Rightarrow> FortuneAlgorithm \<Rightarrow> (error + ArcPtr) option" where
  "last_arc 0 i s = None"
| "last_arc (Suc n) i s =
     (case get_arc s i of
        Inl e \<Rightarrow> Some (Inl e)
      | Inr A \<Rightarrow>
          (case arc_next A of
             None \<Rightarrow> Some (Inr i)
           | Some j \<Rightarrow> last_arc n (Some j) s))"

definition front_insert :: "nat \<Rightarrow> Point \<Rightarrow> FortuneAlgorithm \<Rightarrow> (error + FortuneAlgorithm) option" where
  "front_insert n p s =
     (case root_arc s of
        None \<Rightarrow>
          Some (Inr ((alloc_arc (Arc_new p None None) s)\<lparr>root_arc := Some (length (arc_heap s))\<rparr>))
      | Some r \<Rightarrow>
          obind (front_insert_loop n p (Some r) s) (\<lambda>res.
            case res of
              Some t \<Rightarrow> Some (Inr t)
            | None \<Rightarrow> obind (last_arc n (root_arc s) s) (\<lambda>i. Some (append_arc p i s))))"

text \<open>\<open>Point p = points.top(); points.pop(); front_insert(p);\<close>\<close>

definition process_point :: "nat \<Rightarrow> FortuneAlgorithm \<Rightarrow> (error + FortuneAlgorithm) option" where
  "process_point n s =
     (case points_top (points s) of
        None \<Rightarrow> Some (Inl EmptyQueue)
      | Some p \<Rightarrow> front_insert n p (s\<lparr>points := remove1 p (points s)\<rparr>))"

section \<open>The sweep driver and the edge finisher (voronoi.cpp)\<close>

definition add_point :: "Point \<Rightarrow> FortuneAlgorithm \<Rightarrow> FortuneAlgorithm" where
  "add_point p s =
     (let s1 = s\<lparr>points := points s @ [p]\<rparr>
      in if length (points s1) = 1
         then s1\<lparr>x_min := px p, x_max := px p, y_min := py p, y_max := py p\<rparr>
         else s1\<lparr>x_min := min (x_min s1) (px p), y_min := min (y_min s1) (py p),
                 x_max := max (x_max s1) (px p), y_max := max (y_max s1) (py p)\<rparr>)"

text \<open>The body of \<open>for (ArcPtr i = root; i->next != nullptr; i = i->next)\<close> in \<open>finish_edges\<close>.\<close>

definition finish_edge :: "real \<Rightarrow> Arc \<Rightarrow> FortuneAlgorithm \<Rightarrow> error + FortuneAlgorithm" where
  "finish_edge l A s =
     (case arc_right_segment A of
        None \<Rightarrow> Inr s
      | Some k \<Rightarrow>
          ebind (get_arc s (arc_next A)) (\<lambda>N.
          ebind (intersection (arc_p A) (arc_p N) (l * 2)) (\<lambda>q.
            finish_segment (Some k) q s)))"

fun finish_edges_loop ::
  "nat \<Rightarrow> real \<Rightarrow> ArcPtr \<Rightarrow> FortuneAlgorithm \<Rightarrow> (error + FortuneAlgorithm) option" where
  "finish_edges_loop 0 l i s = None"
| "finish_edges_loop (Suc n) l i s =
     (case get_arc s i of
        Inl e \<Rightarrow> Some (Inl e)
      | Inr A \<Rightarrow>
          (case arc_next A of
             None \<Rightarrow> Some (Inr s)
           | Some j \<Rightarrow>
               (case finish_edge l A s of
                  Inl e \<Rightarrow> Some (Inl e)
                | Inr t \<Rightarrow>
                    (case next_of t i of
                       Inl e \<Rightarrow> Some (Inl e)
                     | Inr nx \<Rightarrow> finish_edges_loop n l nx t))))"

definition finish_edges :: "nat \<Rightarrow> FortuneAlgorithm \<Rightarrow> (error + FortuneAlgorithm) option" where
  "finish_edges n s =
     (let l = x_max s + (x_max s - x_min s) + (y_max s - y_min s)
      in finish_edges_loop n l (root_arc s) s)"

text \<open>One iteration of \<open>while (!points.empty())\<close> in \<open>compute\<close>:
  \<open>if (!events.empty() && events.top()->x <= points.top().x) process_event(); else process_point();\<close>\<close>

definition compute_step ::
  "(nat \<Rightarrow> nat) \<Rightarrow> nat \<Rightarrow> FortuneAlgorithm \<Rightarrow> (error + FortuneAlgorithm) option" where
  "compute_step addr m s =
     (case events_top addr (events s) of
        None \<Rightarrow> process_point m s
      | Some e \<Rightarrow>
          (case get_event s (Some e) of
             Inl err \<Rightarrow> Some (Inl err)
           | Inr ev \<Rightarrow>
               (case points_top (points s) of
                  None \<Rightarrow> Some (Inl EmptyQueue)
                | Some p \<Rightarrow>
                    if ev_x ev \<le> px p then Some (process_event addr s)
                    else process_point m s)))"

fun points_loop ::
  "(nat \<Rightarrow> nat) \<Rightarrow> nat \<Rightarrow> nat \<Rightarrow> FortuneAlgorithm \<Rightarrow> (error + FortuneAlgorithm) option" where
  "points_loop addr m 0 s = None"
| "points_loop addr m (Suc n) s =
     (if points s \<noteq> [] then obind (compute_step addr m s) (points_loop addr m n)
      else Some (Inr s))"

text \<open>\<open>while (!events.empty()) process_event();\<close>\<close>

fun events_loop ::
  "(nat \<Rightarrow> nat) \<Rightarrow> nat \<Rightarrow> FortuneAlgorithm \<Rightarrow> (error + FortuneAlgorithm) option" where
  "events_loop addr 0 s = None"
| "events_loop addr (Suc n) s =
     (if events s \<noteq> [] then obind (Some (process_event addr s)) (events_loop addr n)
      else Some (Inr s))"

text \<open>The margins that \<open>compute\<close> adds to the bounding box before the sweep.\<close>

definition add_margins :: "FortuneAlgorithm \<Rightarrow> FortuneAlgorithm" where
  "add_margins s =
     (let dx = (x_max s - x_min s + 1) / 5;
          dy = (y_max s - y_min s + 1) / 5
      in s\<lparr>x_min := x_min s - dx, x_max := x_max s + dx,
           y_min := y_min s - dy, y_max := y_max s + dy\<rparr>)"

definition compute :: "(nat \<Rightarrow> nat) \<Rightarrow> nat \<Rightarrow> FortuneAlgorithm \<Rightarrow> (error + FortuneAlgorithm) option" where
  "compute addr n s =
     obind (points_loop addr n n (add_margins s)) (\<lambda>s1.
     obind (events_loop addr n s1) (\<lambda>s2.
       finish_edges n s2))"

section \<open>Auxiliary definitions\<close>










text \<open>Four sites given to \<open>add_point\<close>, in two versions, and fuel for the loops.\<close>

definition four_sites :: FortuneAlgorithm where
  "four_sites =
     add_point \<lparr>px = 8, py = 6\<rparr> (add_point \<lparr>px = 0, py = 0\<rparr>
       (add_point \<lparr>px = 8, py = 0\<rparr> (add_point \<lparr>px = 0, py = - 15\<rparr> FortuneAlgorithm_init)))"

definition four_sites_low :: FortuneAlgorithm where
  "four_sites_low =
     add_point \<lparr>px = 8, py = 6\<rparr> (add_point \<lparr>px = 0, py = 0\<rparr>
       (add_point \<lparr>px = 8, py = 0\<rparr> (add_point \<lparr>px = 0, py = - 10 / 3\<rparr> FortuneAlgorithm_init)))"

definition fuel5 :: nat where
  "fuel5 = Suc (Suc (Suc (Suc (Suc 0))))"

text \<open>Two and three sites given to \<open>add_point\<close>.\<close>

definition two_sites :: FortuneAlgorithm where
  "two_sites = add_point \<lparr>px = - 16, py = 5\<rparr> (add_point \<lparr>px = - 16, py = 0\<rparr> FortuneAlgorithm_init)"

definition three_sites :: FortuneAlgorithm where
  "three_sites =
     add_point \<lparr>px = - 26, py = 4\<rparr> (add_point \<lparr>px = - 30, py = 0\<rparr>
       (add_point \<lparr>px = - 26, py = 0\<rparr> FortuneAlgorithm_init))"


text \<open>A beachline of one arc, of site (0, 0).\<close>

definition one_arc :: FortuneAlgorithm where
  "one_arc =
     FortuneAlgorithm_init\<lparr>root_arc := Some 0, arc_heap := [Arc_new \<lparr>px = 0, py = 0\<rparr> None None]\<rparr>"

section \<open>Segments\<close>

lemma finish_done: "seg_done (finish p s)"
  by (simp add: finish_def)

lemma finish_when_done: "seg_done s \<Longrightarrow> finish q s = s"
  by (simp add: finish_def)

lemma finish_ptr_done: "sp_done (finish_ptr p s)"
  by (simp add: finish_ptr_def)

text \<open>
  C8. \<open>finish\<close> is idempotent and a finished segment is immutable: after \<open>finish(p)\<close>
  the flag \<open>done\<close> is true, and a later \<open>finish(q)\<close>, for any point \<open>q\<close>, leaves the segment
  (so its \<open>end\<close> and its \<open>done\<close>) as it was. The same holds of the pointer version of
  point.h.
\<close>

theorem finish_idempotent:
  "seg_done (finish p s)
   \<and> finish q (finish p s) = finish p s
   \<and> seg_end (finish q (finish p s)) = seg_end (finish p s)
   \<and> seg_done (finish q (finish p s)) = seg_done (finish p s)
   \<and> sp_done (finish_ptr p t)
   \<and> finish_ptr q (finish_ptr p t) = finish_ptr p t"
  by (simp add: finish_def finish_ptr_def)


section \<open>Results that may fail\<close>

lemma ebind_Inr: "ebind (Inr v) f = f v"
  by (simp add: ebind_def)

lemma ebind_Inl: "ebind (Inl e) f = Inl e"
  by (simp add: ebind_def)

lemma ebind_eq_Inr: "ebind m f = Inr r \<longleftrightarrow> (\<exists>v. m = Inr v \<and> f v = Inr r)"
  by (cases m) (simp_all add: ebind_def)

lemma fdiv_Inr: "b \<noteq> 0 \<Longrightarrow> fdiv a b = Inr (a / b)"
  by (simp add: fdiv_def)




section \<open>The circle event of a triple\<close>

lemma sqrt_25: "sqrt 25 = 5"
  using real_sqrt_abs[of 5] by simp

lemma circle_G_turn: "circle_G a b c = 2 * turn a b c"
  by (simp add: circle_G_def turn_def algebra_simps)

lemma circle_None_iff: "circle a b c = None \<longleftrightarrow> (turn a b c > 0 \<or> circle_G a b c = 0)"
  by (simp add: circle_def Let_def)

lemma circle_Some_x:
  assumes "circle a b c = Some (xx, ctr)"
  shows "xx = px ctr + hypot (px a - px ctr) (py a - py ctr)"
  using assms by (auto simp: circle_def Let_def split: if_splits)

lemma circle_center:
  assumes "circle a b c = Some (xx, ctr)"
  shows "circle_G a b c \<noteq> 0"
    and "px ctr * circle_G a b c =
           (py c - py a) * ((px b - px a) * (px a + px b) + (py b - py a) * (py a + py b))
           - (py b - py a) * ((px c - px a) * (px a + px c) + (py c - py a) * (py a + py c))"
    and "py ctr * circle_G a b c =
           (px b - px a) * ((px c - px a) * (px a + px c) + (py c - py a) * (py a + py c))
           - (px c - px a) * ((px b - px a) * (px a + px b) + (py b - py a) * (py a + py b))"
  using assms by (auto simp: circle_def Let_def split: if_splits)

text \<open>The point that \<open>circle\<close> returns is at the same distance from the three sites.\<close>

lemma circle_equidistant:
  assumes "circle a b c = Some (xx, ctr)"
  shows "(px b - px ctr)\<^sup>2 + (py b - py ctr)\<^sup>2 = (px a - px ctr)\<^sup>2 + (py a - py ctr)\<^sup>2"
    and "(px c - px ctr)\<^sup>2 + (py c - py ctr)\<^sup>2 = (px a - px ctr)\<^sup>2 + (py a - py ctr)\<^sup>2"
proof -
  note h = circle_center[OF assms]
  define G where "G = circle_G a b c"
  have G: "G = 2 * ((px b - px a) * (py c - py a) - (py b - py a) * (px c - px a))"
    by (simp add: G_def circle_G_def algebra_simps)
  have nz: "G \<noteq> 0" using h(1) by (simp add: G_def)
  have "G * ((px b - px ctr)\<^sup>2 + (py b - py ctr)\<^sup>2
             - ((px a - px ctr)\<^sup>2 + (py a - py ctr)\<^sup>2)) = 0"
    using h(2,3)[folded G_def] G by algebra
  with nz show "(px b - px ctr)\<^sup>2 + (py b - py ctr)\<^sup>2 = (px a - px ctr)\<^sup>2 + (py a - py ctr)\<^sup>2"
    by simp
  have "G * ((px c - px ctr)\<^sup>2 + (py c - py ctr)\<^sup>2
             - ((px a - px ctr)\<^sup>2 + (py a - py ctr)\<^sup>2)) = 0"
    using h(2,3)[folded G_def] G by algebra
  with nz show "(px c - px ctr)\<^sup>2 + (py c - py ctr)\<^sup>2 = (px a - px ctr)\<^sup>2 + (py a - py ctr)\<^sup>2"
    by simp
qed

lemma hypot_power2: "hypot u v = sqrt (u\<^sup>2 + v\<^sup>2)"
  by (simp add: hypot_def power2_eq_square)

text \<open>
  C4. For every triple of points, \<open>circle(a, b, c)\<close> returns false exactly when the turn test
  rejects the triple (\<open>c\<close> is not a right turn from \<open>a\<close> to \<open>b\<close>: the cross product is positive)
  or the denominator \<open>G\<close> of the circumcentre is zero (\<open>G\<close> is twice the cross product, so
  this is the collinear triple). When it returns true, the trigger x is the x of the
  computed centre plus the distance from the centre to \<open>a\<close>, and that distance is the
  circumradius: the centre is as far from \<open>b\<close> and from \<open>c\<close>.
\<close>

theorem circle_spec:
  "(circle a b c = None \<longleftrightarrow> (turn a b c > 0 \<or> circle_G a b c = 0))
   \<and> circle_G a b c = 2 * turn a b c
   \<and> (\<forall>xx ctr. circle a b c = Some (xx, ctr) \<longrightarrow>
         xx = px ctr + hypot (px a - px ctr) (py a - py ctr)
         \<and> hypot (px a - px ctr) (py a - py ctr) = sqrt ((px a - px ctr)\<^sup>2 + (py a - py ctr)\<^sup>2)
         \<and> hypot (px b - px ctr) (py b - py ctr) = hypot (px a - px ctr) (py a - py ctr)
         \<and> hypot (px c - px ctr) (py c - py ctr) = hypot (px a - px ctr) (py a - py ctr))"
proof (intro conjI allI impI)
  show "circle a b c = None \<longleftrightarrow> (turn a b c > 0 \<or> circle_G a b c = 0)"
    by (rule circle_None_iff)
  show "circle_G a b c = 2 * turn a b c"
    by (rule circle_G_turn)
next
  fix xx ctr
  assume h: "circle a b c = Some (xx, ctr)"
  show "xx = px ctr + hypot (px a - px ctr) (py a - py ctr)"
    by (rule circle_Some_x[OF h])
  show "hypot (px a - px ctr) (py a - py ctr) = sqrt ((px a - px ctr)\<^sup>2 + (py a - py ctr)\<^sup>2)"
    by (rule hypot_power2)
  show "hypot (px b - px ctr) (py b - py ctr) = hypot (px a - px ctr) (py a - py ctr)"
    by (simp only: hypot_power2 circle_equidistant(1)[OF h])
  show "hypot (px c - px ctr) (py c - py ctr) = hypot (px a - px ctr) (py a - py ctr)"
    by (simp only: hypot_power2 circle_equidistant(2)[OF h])
qed

lemma circle_example:
  "circle \<lparr>px = 8, py = 0\<rparr> \<lparr>px = 0, py = 0\<rparr> \<lparr>px = 8, py = 6\<rparr> = Some (9, \<lparr>px = 4, py = 3\<rparr>)"
  by (simp add: circle_def turn_def circle_G_def Let_def hypot_def sqrt_25)

theorem circle_spec_witness:
  "circle \<lparr>px = 8, py = 0\<rparr> \<lparr>px = 0, py = 0\<rparr> \<lparr>px = 8, py = 6\<rparr> = Some (9, \<lparr>px = 4, py = 3\<rparr>)
   \<and> (9::real) = 4 + hypot (8 - 4) (0 - 3)
   \<and> hypot (0 - 4) (0 - 3) = hypot (8 - 4) (0 - 3)
   \<and> hypot (8 - 4) (6 - 3) = hypot (8 - 4) (0 - 3)
   \<and> circle \<lparr>px = 0, py = 0\<rparr> \<lparr>px = 1, py = 1\<rparr> \<lparr>px = 2, py = 2\<rparr> = None"
  using circle_spec[of "\<lparr>px = 8, py = 0\<rparr>" "\<lparr>px = 0, py = 0\<rparr>" "\<lparr>px = 8, py = 6\<rparr>"]
        circle_spec[of "\<lparr>px = 0, py = 0\<rparr>" "\<lparr>px = 1, py = 1\<rparr>" "\<lparr>px = 2, py = 2\<rparr>"]
        circle_example
  by (simp add: circle_G_def turn_def)

section \<open>The breakpoint computation\<close>

lemma ebind_fsqrt_fdiv:
  "d \<noteq> 0 \<Longrightarrow> ebind (fsqrt v) (\<lambda>r. fdiv (g r) d) \<noteq> Inl DivisionByZero"
  by (simp add: fsqrt_def ebind_def fdiv_def)

lemma quadratic_y_no_div:
  assumes "px p0 \<noteq> px p1" "px p1 \<noteq> l" "px p0 \<noteq> l"
  shows "quadratic_y p0 p1 l \<noteq> Inl DivisionByZero"
proof -
  define z0 where "z0 = 2 * (px p0 - l)"
  define z1 where "z1 = 2 * (px p1 - l)"
  have nz0: "z0 \<noteq> 0" and nz1: "z1 \<noteq> 0" and ne: "z0 \<noteq> z1"
    using assms by (simp_all add: z0_def z1_def)
  have "1 / z0 - 1 / z1 = (z1 - z0) / (z0 * z1)"
    using nz0 nz1 by (simp add: field_simps)
  with nz0 nz1 ne have a: "2 * (1 / z0 - 1 / z1) \<noteq> 0" by simp
  have eq: "quadratic_y p0 p1 l =
        ebind (fsqrt ((- 2 * (py p0 / z0 - py p1 / z1)) * (- 2 * (py p0 / z0 - py p1 / z1))
                 - 4 * (1 / z0 - 1 / z1) *
                   ((py p0 * py p0 + px p0 * px p0 - l * l) / z0
                    - (py p1 * py p1 + px p1 * px p1 - l * l) / z1)))
          (\<lambda>r. fdiv (- (- 2 * (py p0 / z0 - py p1 / z1)) - r) (2 * (1 / z0 - 1 / z1)))"
    unfolding quadratic_y_def Let_def z0_def[symmetric] z1_def[symmetric]
    by (simp only: fdiv_Inr[OF nz0] fdiv_Inr[OF nz1] ebind_Inr)
  show ?thesis unfolding eq by (rule ebind_fsqrt_fdiv[OF a])
qed

text \<open>Unless both foci lie on the directrix, no division of \<open>intersection\<close> has a zero
  divisor.\<close>

lemma intersection_no_div:
  assumes "\<not> (px p0 = l \<and> px p1 = l)"
  shows "intersection p0 p1 l \<noteq> Inl DivisionByZero"
  using assms quadratic_y_no_div[of p0 p1 l]
  by (auto simp: intersection_def plug_back_def fdiv_def ebind_def split: sum.splits)

text \<open>The ordinate of the breakpoint in the three degenerate branches.\<close>

lemma intersection_equal_x:
  assumes "px p0 = px p1" "px p0 \<noteq> l"
  shows "\<exists>r. intersection p0 p1 l = Inr r \<and> py r = (py p0 + py p1) / 2"
  using assms by (simp add: intersection_def plug_back_def fdiv_def ebind_def)

lemma intersection_p1_on_directrix:
  assumes "px p0 \<noteq> px p1" "px p1 = l"
  shows "\<exists>r. intersection p0 p1 l = Inr r \<and> py r = py p1"
  using assms by (simp add: intersection_def plug_back_def fdiv_def ebind_def)

lemma intersection_p0_on_directrix:
  assumes "px p0 \<noteq> px p1" "px p1 \<noteq> l" "px p0 = l"
  shows "\<exists>r. intersection p0 p1 l = Inr r \<and> py r = py p0"
  using assms by (simp add: intersection_def plug_back_def fdiv_def ebind_def)

text \<open>
  C6. The specification has \<open>intersection(p0, p1, l)\<close> never divide by zero. With both foci on
  the directrix, \<open>p0 = (0, 0)\<close>, \<open>p1 = (0, 2)\<close> and \<open>l = 0\<close>, the branch \<open>p0.x == p1.x\<close> is taken,
  \<open>res.y\<close> is the midpoint 1, and the last statement divides by \<open>2*p.x - 2*l = 0\<close>.
\<close>

theorem intersection_divides_by_zero:
  "intersection \<lparr>px = 0, py = 0\<rparr> \<lparr>px = 0, py = 2\<rparr> 0 = Inl DivisionByZero"
  by (simp add: intersection_def plug_back_def fdiv_def ebind_def)

section \<open>intersect\<close>

lemma intersect_same_x:
  assumes "get_arc s i = Inr A" "px (arc_p A) = px p"
  shows "intersect p i s = Inr None"
  using assms by (simp add: intersect_def ebind_Inr)

lemma intersect_Some_denominator:
  assumes "get_arc s i = Inr A" "intersect p i s = Inr (Some z)"
  shows "2 * px (arc_p A) - 2 * px p \<noteq> 0"
proof
  assume "2 * px (arc_p A) - 2 * px p = 0"
  then have "px (arc_p A) = px p" by simp
  from intersect_same_x[OF assms(1) this] assms(2) show False by simp
qed

lemma intersect_Some_point:
  assumes "get_arc s i = Inr A" "intersect p i s = Inr (Some z)"
  shows "py z = py p"
    and "px z = (px (arc_p A) * px (arc_p A) + (py (arc_p A) - py p) * (py (arc_p A) - py p)
                 - px p * px p) / (2 * px (arc_p A) - 2 * px p)"
  using assms
  by (auto simp: intersect_def ebind_eq_Inr fdiv_def split: if_splits)

lemma intersect_one_arc:
  "intersect \<lparr>px = 2, py = 2\<rparr> (Some 0) one_arc = Inr (Some \<lparr>px = 0, py = 2\<rparr>)"
  by (simp add: intersect_def one_arc_def FortuneAlgorithm_init_def get_arc_def Arc_new_def
      ebind_def breakpoint_y_def fdiv_def)


lemma ebind_no_div:
  assumes "m \<noteq> Inl DivisionByZero" "\<And>v. m = Inr v \<Longrightarrow> f v \<noteq> Inl DivisionByZero"
  shows "ebind m f \<noteq> Inl DivisionByZero"
  using assms by (cases m) (simp_all add: ebind_def)

lemma get_arc_no_div: "get_arc s i \<noteq> Inl DivisionByZero"
  by (simp add: get_arc_def split: option.splits)

lemma breakpoint_y_no_div:
  assumes "\<And>nb. f nb \<noteq> Inl DivisionByZero"
  shows "breakpoint_y s j f \<noteq> Inl DivisionByZero"
proof (cases j)
  case None
  then show ?thesis by (simp add: breakpoint_y_def)
next
  case (Some n)
  have "ebind (get_arc s (Some n)) (\<lambda>nb. ebind (f nb) (\<lambda>r. Inr (py r))) \<noteq> Inl DivisionByZero"
  proof (rule ebind_no_div[OF get_arc_no_div])
    fix v
    show "ebind (f v) (\<lambda>r. Inr (py r)) \<noteq> Inl DivisionByZero"
      by (rule ebind_no_div[OF assms]) simp
  qed
  then show ?thesis using Some by (simp add: breakpoint_y_def)
qed

lemma intersect_no_div: "intersect p i s \<noteq> Inl DivisionByZero"
  unfolding intersect_def
proof (rule ebind_no_div[OF get_arc_no_div])
  fix A
  show "(if px (arc_p A) = px p then Inr None
       else
         ebind (breakpoint_y s (arc_prev A) (\<lambda>pa. intersection (arc_p pa) (arc_p A) (px p))) (\<lambda>a.
         ebind (breakpoint_y s (arc_next A) (\<lambda>na. intersection (arc_p A) (arc_p na) (px p))) (\<lambda>b.
           if (arc_prev A = None \<or> a \<le> py p) \<and> (arc_next A = None \<or> py p \<le> b)
           then
             ebind (fdiv (px (arc_p A) * px (arc_p A)
                          + (py (arc_p A) - py p) * (py (arc_p A) - py p)
                          - px p * px p)
                         (2 * px (arc_p A) - 2 * px p))
               (\<lambda>xx. Inr (Some \<lparr>px = xx, py = py p\<rparr>))
           else Inr None))) \<noteq> Inl DivisionByZero"
  proof (cases "px (arc_p A) = px p")
    case True
    then show ?thesis by simp
  next
    case False
    then have d: "2 * px (arc_p A) - 2 * px p \<noteq> 0" by simp
    have 1: "\<And>pa. intersection (arc_p pa) (arc_p A) (px p) \<noteq> Inl DivisionByZero"
      using False by (intro intersection_no_div) simp
    have 2: "\<And>na. intersection (arc_p A) (arc_p na) (px p) \<noteq> Inl DivisionByZero"
      using False by (intro intersection_no_div) simp
    have 3: "\<And>a b. (if (arc_prev A = None \<or> a \<le> py p) \<and> (arc_next A = None \<or> py p \<le> b)
           then
             ebind (fdiv (px (arc_p A) * px (arc_p A)
                          + (py (arc_p A) - py p) * (py (arc_p A) - py p)
                          - px p * px p)
                         (2 * px (arc_p A) - 2 * px p))
               (\<lambda>xx. Inr (Some \<lparr>px = xx, py = py p\<rparr>))
           else Inr None) \<noteq> Inl DivisionByZero"
      by (simp add: fdiv_Inr[OF d] ebind_Inr)
    show ?thesis
      apply (simp only: False if_False)
      apply (rule ebind_no_div)
       apply (rule breakpoint_y_no_div)
       apply (rule 1)
      apply (rule ebind_no_div)
       apply (rule breakpoint_y_no_div)
       apply (rule 2)
      apply (rule 3)
      done
  qed
qed

text \<open>
  C10. For every point \<open>p\<close> and every arc \<open>i\<close> whose site has the x of \<open>p\<close>, \<open>intersect(p, i)\<close>
  returns false. So whenever \<open>intersect\<close> returns true with a point, the divisor
  \<open>2*i->p.x - 2*p.x\<close> of the back-substitution is not zero, and the point is \<open>p.y\<close> with the
  x of the parabola of the arc's site. No division that \<open>intersect\<close> makes, its own or
  those of the two calls of \<open>intersection\<close>, has a zero divisor.
\<close>

theorem intersect_guarded:
  "intersect p i s \<noteq> Inl DivisionByZero
   \<and> (\<forall>A. get_arc s i = Inr A \<longrightarrow>
        (px (arc_p A) = px p \<longrightarrow> intersect p i s = Inr None)
        \<and> (\<forall>z. intersect p i s = Inr (Some z) \<longrightarrow>
              2 * px (arc_p A) - 2 * px p \<noteq> 0
              \<and> py z = py p
              \<and> px z = (px (arc_p A) * px (arc_p A) + (py (arc_p A) - py p) * (py (arc_p A) - py p)
                        - px p * px p) / (2 * px (arc_p A) - 2 * px p)))"
proof (intro conjI allI impI)
  show "intersect p i s \<noteq> Inl DivisionByZero" by (rule intersect_no_div)
next
  fix A assume "get_arc s i = Inr A" "px (arc_p A) = px p"
  then show "intersect p i s = Inr None" by (rule intersect_same_x)
next
  fix A z assume h: "get_arc s i = Inr A" "intersect p i s = Inr (Some z)"
  show "2 * px (arc_p A) - 2 * px p \<noteq> 0" by (rule intersect_Some_denominator[OF h])
  show "py z = py p" by (rule intersect_Some_point(1)[OF h])
  show "px z = (px (arc_p A) * px (arc_p A) + (py (arc_p A) - py p) * (py (arc_p A) - py p)
                        - px p * px p) / (2 * px (arc_p A) - 2 * px p)"
    by (rule intersect_Some_point(2)[OF h])
qed

lemma get_arc_one_arc: "get_arc one_arc (Some 0) = Inr (Arc_new \<lparr>px = 0, py = 0\<rparr> None None)"
  by (simp add: get_arc_def one_arc_def)

theorem intersect_guarded_witness:
  "get_arc one_arc (Some 0) = Inr (Arc_new \<lparr>px = 0, py = 0\<rparr> None None)
   \<and> intersect \<lparr>px = 0, py = 5\<rparr> (Some 0) one_arc = Inr None
   \<and> intersect \<lparr>px = 2, py = 2\<rparr> (Some 0) one_arc = Inr (Some \<lparr>px = 0, py = 2\<rparr>)
   \<and> 2 * px (arc_p (Arc_new \<lparr>px = 0, py = 0\<rparr> None None)) - 2 * px \<lparr>px = 2, py = 2::real\<rparr> \<noteq> 0"
proof -
  let ?A = "Arc_new \<lparr>px = 0, py = 0\<rparr> None None"
  note g = get_arc_one_arc
  have same: "px (arc_p ?A) = px \<lparr>px = 0, py = 5::real\<rparr>" by (simp add: Arc_new_def)
  from intersect_guarded[of "\<lparr>px = 0, py = 5\<rparr>" "Some 0" one_arc]
  have "px (arc_p ?A) = px \<lparr>px = 0, py = 5::real\<rparr> \<longrightarrow> intersect \<lparr>px = 0, py = 5\<rparr> (Some 0) one_arc = Inr None"
    using g by blast
  with same have 1: "intersect \<lparr>px = 0, py = 5\<rparr> (Some 0) one_arc = Inr None" by (rule rev_mp)
  from intersect_guarded[of "\<lparr>px = 2, py = 2\<rparr>" "Some 0" one_arc]
  have "intersect \<lparr>px = 2, py = 2\<rparr> (Some 0) one_arc = Inr (Some \<lparr>px = 0, py = 2\<rparr>)
        \<longrightarrow> 2 * px (arc_p ?A) - 2 * px \<lparr>px = 2, py = 2::real\<rparr> \<noteq> 0"
    using g by blast
  with intersect_one_arc have 2: "2 * px (arc_p ?A) - 2 * px \<lparr>px = 2, py = 2::real\<rparr> \<noteq> 0"
    by (rule rev_mp)
  from g 1 intersect_one_arc 2 show ?thesis by (intro conjI)
qed


section \<open>check\_circle\_event\<close>













section \<open>The sweep driver\<close>

lemma obind_Some_Inr: "obind (Some (Inr v)) f = f v"
  by (simp add: obind_def)

text \<open>
  C1. The specification has \<open>compute()\<close> return normally, with no segment, for zero sites
  and for one site. For one site it does (\<open>compute_one_site\<close> below). For zero sites \<open>root\<close> is
  still null when \<open>finish_edges\<close> starts, and the loop condition \<open>i->next != nullptr\<close>
  dereferences it: with any fuel the two queue loops return at once and \<open>compute\<close> fails.
\<close>

theorem compute_no_sites:
  "compute addr (Suc n) FortuneAlgorithm_init = Some (Inl NullPointerDereference)"
  by (simp add: compute_def obind_def add_margins_def FortuneAlgorithm_init_def finish_edges_def
      get_arc_def Let_def)

lemma compute_one_site:
  "\<exists>t. compute addr (Suc (Suc n)) (add_point p FortuneAlgorithm_init) = Some (Inr t)
       \<and> get_segments t = [] \<and> segment_heap t = []
       \<and> arc_heap t = [Arc_new p None None] \<and> root_arc t = Some 0"
  by (simp add: compute_def obind_def add_margins_def FortuneAlgorithm_init_def finish_edges_def
      get_arc_def Let_def add_point_def compute_step_def process_point_def front_insert_def
      alloc_arc_def Arc_new_def get_segments_def)








section \<open>The order of the two queues\<close>

text \<open>The definitions that an evaluation of the model unfolds.\<close>

lemmas model_defs =
  compute_step_def process_point_def front_insert_def obind_def ebind_def
  alloc_arc_def alloc_segment_def Arc_new_def Segment_new_def Point_new_def Event_new_def
  get_arc_def get_event_def set_arc_def next_of_def prev_of_def next_becomes_next_prev_def
  intersect_def breakpoint_y_def intersection_def plug_back_def fdiv_def
  split_arc_def insert_arcs_def new_segments_def append_arc_def check_three_def
  check_circle_event_call_def check_circle_event_def invalidate_event_def
  schedule_event_def circle_def turn_def circle_G_def hypot_def Point_greater_def
  process_event_def fire_event_def remove_arc_def recheck_neighbours_def finish_segment_def Let_def

lemma sqrt_289_4: "sqrt (289 / 4) = 17 / 2"
  using real_sqrt_abs[of "17 / 2"] by (simp add: power2_eq_square)

lemma sqrt_169_9: "sqrt (169 / 9) = 13 / 3"
  using real_sqrt_abs[of "13 / 3"] by (simp add: power2_eq_square)

lemma four_sites_loop:
  "\<exists>t. points_loop id fuel5 fuel5 (add_margins four_sites) = Some (Inr t)
       \<and> points t = [] \<and> events t = [0, 1]
       \<and> event_heap t = [Event_new (25 / 2) \<lparr>px = 4, py = - 15 / 2\<rparr> (Some 1),
                          Event_new 9 \<lparr>px = 4, py = 3\<rparr> (Some 2)]"
  by (simp add: four_sites_def add_point_def FortuneAlgorithm_init_def add_margins_def fuel5_def
      model_defs sqrt_25 sqrt_289_4)

lemma four_sites_low_loop:
  "\<exists>t. points_loop (\<lambda>k. 100 - k) fuel5 fuel5 (add_margins four_sites_low) = Some (Inr t)
       \<and> points t = [] \<and> events t = [0, 1]
       \<and> event_heap t = [Event_new (25 / 3) \<lparr>px = 4, py = - 5 / 3\<rparr> (Some 1),
                          Event_new 9 \<lparr>px = 4, py = 3\<rparr> (Some 2)]"
  by (simp add: four_sites_low_def add_point_def FortuneAlgorithm_init_def add_margins_def fuel5_def
      model_defs sqrt_25 sqrt_169_9)

text \<open>
  C2. The specification has every pop of the circle-event queue yield an event of least
  trigger x. The queue compares the pointers, so it yields the event of least address.
  With the sites (0, -15), (0, 0), (8, 0), (8, 6) and addresses that grow with each
  allocation (\<open>addr = id\<close>), the site loop of \<open>compute()\<close> ends with two valid events in the
  queue, of trigger x 25/2 and 9 in the order of their creation, and \<open>events.top()\<close> is the
  first: its x is greater than the other's, which is what \<open>EventComparator\<close> calls greater.
  With addresses that shrink with each allocation the same happens on the sites
  (0, -10/3), (0, 0), (8, 0), (8, 6): the events have x 25/3 and 9, and the top is the second.
\<close>

theorem events_popped_by_address:
  "(\<exists>t. points_loop id fuel5 fuel5 (add_margins four_sites) = Some (Inr t)
       \<and> events t = [0, 1]
       \<and> events_top id (events t) = Some 0
       \<and> ev_x (event_heap t ! 0) = 25 / 2
       \<and> ev_x (event_heap t ! 1) = 9
       \<and> EventComparator (event_heap t ! 0) (event_heap t ! 1))
   \<and> (\<exists>t. points_loop (\<lambda>k. 100 - k) fuel5 fuel5 (add_margins four_sites_low) = Some (Inr t)
       \<and> events t = [0, 1]
       \<and> events_top (\<lambda>k. 100 - k) (events t) = Some 1
       \<and> ev_x (event_heap t ! 1) = 9
       \<and> ev_x (event_heap t ! 0) = 25 / 3
       \<and> EventComparator (event_heap t ! 1) (event_heap t ! 0))"
proof
  from four_sites_loop obtain t where
    "points_loop id fuel5 fuel5 (add_margins four_sites) = Some (Inr t)" "events t = [0, 1]"
    "event_heap t = [Event_new (25 / 2) \<lparr>px = 4, py = - 15 / 2\<rparr> (Some 1),
                          Event_new 9 \<lparr>px = 4, py = 3\<rparr> (Some 2)]"
    by blast
  then show "\<exists>t. points_loop id fuel5 fuel5 (add_margins four_sites) = Some (Inr t)
       \<and> events t = [0, 1]
       \<and> events_top id (events t) = Some 0
       \<and> ev_x (event_heap t ! 0) = 25 / 2
       \<and> ev_x (event_heap t ! 1) = 9
       \<and> EventComparator (event_heap t ! 0) (event_heap t ! 1)"
    by (simp add: Event_new_def EventComparator_def)
next
  from four_sites_low_loop obtain t where
    "points_loop (\<lambda>k. 100 - k) fuel5 fuel5 (add_margins four_sites_low) = Some (Inr t)" "events t = [0, 1]"
    "event_heap t = [Event_new (25 / 3) \<lparr>px = 4, py = - 5 / 3\<rparr> (Some 1),
                          Event_new 9 \<lparr>px = 4, py = 3\<rparr> (Some 2)]"
    by blast
  then show "\<exists>t. points_loop (\<lambda>k. 100 - k) fuel5 fuel5 (add_margins four_sites_low) = Some (Inr t)
       \<and> events t = [0, 1]
       \<and> events_top (\<lambda>k. 100 - k) (events t) = Some 1
       \<and> ev_x (event_heap t ! 1) = 9
       \<and> ev_x (event_heap t ! 0) = 25 / 3
       \<and> EventComparator (event_heap t ! 1) (event_heap t ! 0)"
    by (simp add: Event_new_def EventComparator_def)
qed

text \<open>The site queue, under the lexicographic order, does yield a least site.\<close>

lemma points_top_None: "points_top ps = None \<longleftrightarrow> ps = []"
  by (cases ps) (auto split: option.splits)

lemma events_top_None: "events_top addr q = None \<longleftrightarrow> q = []"
  by (cases q) (auto split: option.splits)

lemma points_top_in: "points_top ps = Some m \<Longrightarrow> m \<in> set ps"
  by (induction ps arbitrary: m) (auto split: option.splits if_splits)

lemma Point_greater_trans: "Point_greater a b \<Longrightarrow> Point_greater b c \<Longrightarrow> Point_greater a c"
  by (auto simp: Point_greater_def)

lemma Point_greater_asym: "Point_greater a b \<Longrightarrow> \<not> Point_greater b a"
  by (auto simp: Point_greater_def)

lemma Point_greater_irrefl: "\<not> Point_greater a a"
  by (simp add: Point_greater_def)

lemma Point_greater_total: "\<not> Point_greater a b \<Longrightarrow> \<not> Point_greater b c \<Longrightarrow> \<not> Point_greater a c"
  by (auto simp: Point_greater_def)

lemma points_top_least:
  "points_top ps = Some m \<Longrightarrow> q \<in> set ps \<Longrightarrow> \<not> Point_greater m q"
proof (induction ps arbitrary: m)
  case Nil
  then show ?case by simp
next
  case (Cons p ps)
  show ?case
  proof (cases "points_top ps")
    case None
    then have e: "ps = []" by (simp add: points_top_None)
    from Cons.prems(1) None have "m = p" by simp
    moreover from Cons.prems(2) e have "q = p" by simp
    ultimately show ?thesis by (simp add: Point_greater_def)
  next
    case (Some m')
    show ?thesis
    proof (cases "Point_greater p m'")
      case True
      with Some Cons.prems(1) have m: "m = m'" by simp
      show ?thesis
      proof (cases "q = p")
        case True
        from Point_greater_asym[OF \<open>Point_greater p m'\<close>] show ?thesis
          unfolding m True .
      next
        case False
        with Cons.prems(2) have "q \<in> set ps" by simp
        from Cons.IH[OF Some this] show ?thesis unfolding m .
      qed
    next
      case False
      with Some Cons.prems(1) have m: "m = p" by simp
      show ?thesis
      proof (cases "q = p")
        case True
        show ?thesis unfolding m True by (rule Point_greater_irrefl)
      next
        case qp: False
        with Cons.prems(2) have "q \<in> set ps" by simp
        from Cons.IH[OF Some this] have n: "\<not> Point_greater m' q" .
        from Point_greater_total[OF False n] show ?thesis unfolding m .
      qed
    qed
  qed
qed

text \<open>The event queue yields a pointer of least address.\<close>
lemma events_top_in: "events_top addr q = Some m \<Longrightarrow> m \<in> set q"
  by (induction q arbitrary: m) (auto split: option.splits if_splits)

lemma events_top_least_addr:
  "events_top addr q = Some m \<Longrightarrow> e \<in> set q \<Longrightarrow> addr m \<le> addr e"
  by (induction q arbitrary: m) (auto simp: events_top_None split: option.splits if_splits)


section \<open>At most one valid circle event for an arc\<close>
























































section \<open>The dispatch of the main loop\<close>
































section \<open>Runs that divide by zero\<close>

text \<open>
  The case that \<open>intersection\<close> misses is reached from \<open>compute()\<close>, in \<open>finish_edges\<close>, when
  two neighbouring arcs have sites of the x of the far directrix \<open>l * 2\<close>. In exact
  arithmetic the sites (-16, 0), (-16, 5) do it. So do the sites (-30, 0), (-26, 0),
  (-26, 4), where every number up to the division is a small integer (the margins are 1,
  \<open>l\<close> is -13 and \<open>l * 2\<close> is -26, the x of the last two sites), so it is also what the
  \<open>double\<close> computation does.
\<close>

lemma compute_two_sites:
  "compute id fuel5 two_sites = Some (Inl DivisionByZero)"
  by (simp add: two_sites_def compute_def add_point_def FortuneAlgorithm_init_def add_margins_def
      fuel5_def finish_edges_def finish_edge_def model_defs)

lemma sqrt_8_gt_2: "2 < sqrt 8"
  by (rule real_less_rsqrt) simp

lemma compute_three_sites:
  "compute id fuel5 three_sites = Some (Inl DivisionByZero)"
  using sqrt_8_gt_2
  by (simp add: three_sites_def compute_def add_point_def FortuneAlgorithm_init_def add_margins_def
      fuel5_def finish_edges_def finish_edge_def finish_def model_defs)

end
